theory Spec2Isabelle
  imports Complex_Main
begin

section \<open>Data model of the image splitter (src/src/App.tsx)\<close>

text \<open>
  The application is one React component whose state is a handful of \<open>useState\<close> cells
  and whose logic is a set of event handlers over that state. The embedding keeps the
  state as a record, every handler as a function from the state to the next state, and
  everything the browser decides (canvas contexts, PNG encoding, \<open>parseFloat\<close>, the
  archive folder) as an explicit parameter.
\<close>

subsection \<open>JavaScript numbers\<close>

text \<open>
  A JavaScript number is \<open>NaN\<close>, an infinity or a finite value. Finite values are kept as
  rationals: rounding to the nearest double is not modelled, and the two zeros are one
  value \<open>Fin 0\<close> (both are falsy, which is all the code observes of them).
\<close>

datatype number = NaN | Fin rat | Infinity | NegInfinity

text \<open>Truthiness of a number, as \<open>x || y\<close> tests it: \<open>NaN\<close> and zero are falsy.\<close>

fun truthy :: "number \<Rightarrow> bool" where
  "truthy NaN = False"
| "truthy (Fin r) = (r \<noteq> 0)"
| "truthy Infinity = True"
| "truthy NegInfinity = True"

text \<open>\<open>x || y\<close> on numbers.\<close>

definition js_or :: "number \<Rightarrow> number \<Rightarrow> number" where
  "js_or x y = (if truthy x then x else y)"

text \<open>\<open>x / 2\<close> on numbers.\<close>

fun div2 :: "number \<Rightarrow> number" where
  "div2 NaN = NaN"
| "div2 (Fin r) = Fin (r / 2)"
| "div2 Infinity = Infinity"
| "div2 NegInfinity = NegInfinity"

subsection \<open>Types of the component\<close>

datatype Orientation = portrait | landscape

datatype PaperFormat = A4 | A3 | A2 | custom

record Dimensions =
  width :: number
  height :: number

text \<open>
  The decoded image the component keeps: the pixel width and height of the
  \<open>HTMLImageElement\<close>, and the object URL it was loaded from.
\<close>

record HTMLImageElement =
  img_width :: nat
  img_height :: nat
  img_src :: string

text \<open>
  A section's canvas after \<open>createSection\<close> has drawn on it: its bitmap size and the
  source rectangle of the image that was drawn at its origin, unscaled.
\<close>

record SectionCanvas =
  canvas_width :: nat
  canvas_height :: nat
  drawn_image :: HTMLImageElement
  drawn_sx :: rat
  drawn_sy :: rat
  drawn_sw :: rat
  drawn_sh :: rat

record ImageSection =
  dataUrl :: string
  dimensions :: Dimensions

text \<open>The \<open>File\<close> of the upload input: its name and its content type.\<close>

record UploadedFile =
  file_name :: string
  file_type :: string

text \<open>
  The state cells of the component. \<open>splitSections\<close> is typed \<open>ImageSection[]\<close> in the
  source, but \<open>processImage\<close> pushes the result of \<open>createSection\<close> through a non-null
  assertion, so an entry can be \<open>null\<close> at run time: the entries are options.
\<close>

record AppState =
  darkMode :: bool
  sourceImage :: "HTMLImageElement option"
  fileName :: string
  fileType :: string
  paperFormat :: PaperFormat
  orientation :: Orientation
  customDimensions :: Dimensions
  splitSections :: "ImageSection option list"
  isProcessing :: bool
  error :: "string option"
  previewImageUrl :: "string option"
  isPreviewOpen :: bool

text \<open>The initial values of the \<open>useState\<close> cells.\<close>

definition initialState :: AppState where
  "initialState =
     \<lparr>darkMode = False, sourceImage = None, fileName = '''', fileType = '''',
      paperFormat = A4, orientation = portrait,
      customDimensions = \<lparr>width = Fin 20, height = Fin 20\<rparr>,
      splitSections = [], isProcessing = False, error = None,
      previewImageUrl = None, isPreviewOpen = False\<rparr>"

section \<open>Dimension resolver\<close>

fun PAPER_FORMATS :: "PaperFormat \<Rightarrow> Dimensions" where
  "PAPER_FORMATS A4 = \<lparr>width = Fin 21, height = Fin (297 / 10)\<rparr>"
| "PAPER_FORMATS A3 = \<lparr>width = Fin (297 / 10), height = Fin 42\<rparr>"
| "PAPER_FORMATS A2 = \<lparr>width = Fin 42, height = Fin (594 / 10)\<rparr>"
| "PAPER_FORMATS custom = \<lparr>width = Fin 20, height = Fin 20\<rparr>"

definition toggleOrientation :: "AppState \<Rightarrow> AppState" where
  "toggleOrientation s =
     s\<lparr>orientation := (if orientation s = portrait then landscape else portrait)\<rparr>"

definition getCurrentDimensions :: "AppState \<Rightarrow> Dimensions" where
  "getCurrentDimensions s =
     (let baseDimensions =
            (if paperFormat s = custom then customDimensions s
             else PAPER_FORMATS (paperFormat s))
      in if orientation s = landscape
         then \<lparr>width = height baseDimensions, height = width baseDimensions\<rparr>
         else baseDimensions)"

section \<open>Custom dimension inputs\<close>

text \<open>
  The two number inputs store \<open>parseFloat(e.target.value) || 1\<close> into the custom
  dimensions. \<open>parseFloat\<close> is the language's built-in: the handlers take it as the
  parameter \<open>pf\<close>, so every property of the handlers holds of the real one.
\<close>

definition customWidthChange :: "(string \<Rightarrow> number) \<Rightarrow> string \<Rightarrow> AppState \<Rightarrow> AppState" where
  "customWidthChange pf v s =
     s\<lparr>customDimensions := (customDimensions s)\<lparr>width := js_or (pf v) (Fin 1)\<rparr>\<rparr>"

definition customHeightChange :: "(string \<Rightarrow> number) \<Rightarrow> string \<Rightarrow> AppState \<Rightarrow> AppState" where
  "customHeightChange pf v s =
     s\<lparr>customDimensions := (customDimensions s)\<lparr>height := js_or (pf v) (Fin 1)\<rparr>\<rparr>"

subsection \<open>A decimal reading of \<open>parseFloat\<close>\<close>

text \<open>
  For concrete inputs, \<open>parseFloat\<close> as ECMAScript defines it on ASCII text: leading
  white space is skipped, then the longest prefix that is a decimal literal (an optional
  sign, then \<open>Infinity\<close>, or digits with an optional fraction and an optional exponent)
  is read, and \<open>NaN\<close> is returned when there is none. The value is the exact decimal
  value; the rounding to a double is left out.
\<close>

definition isWhiteSpace :: "char \<Rightarrow> bool" where
  "isWhiteSpace c = (c \<in> set [CHR '' '', CHR 0x09, CHR 0x0A, CHR 0x0B, CHR 0x0C, CHR 0x0D])"

definition isDigit :: "char \<Rightarrow> bool" where
  "isDigit c = (c \<in> set ''0123456789'')"

definition digitVal :: "char \<Rightarrow> nat" where
  "digitVal c = of_char c - of_char CHR ''0''"

definition digitsVal :: "string \<Rightarrow> nat" where
  "digitsVal ds = foldl (\<lambda>acc c. 10 * acc + digitVal c) 0 ds"

definition isPrefixOf :: "string \<Rightarrow> string \<Rightarrow> bool" where
  "isPrefixOf p s = (take (length p) s = p)"

text \<open>The exponent part after the mantissa: its power of ten, 1 when there is none.\<close>

definition exponentFactor :: "string \<Rightarrow> rat" where
  "exponentFactor rest =
     (case rest of
        [] \<Rightarrow> 1
      | e # r1 \<Rightarrow>
          if e = CHR ''e'' \<or> e = CHR ''E'' then
            (let neg = (case r1 of [] \<Rightarrow> False | c # _ \<Rightarrow> c = CHR ''-'');
                 r2 = (case r1 of [] \<Rightarrow> []
                       | c # r \<Rightarrow> if c = CHR ''+'' \<or> c = CHR ''-'' then r else r1);
                 ds = takeWhile isDigit r2
             in if ds = [] then 1
                else if neg then 1 / 10 ^ digitsVal ds
                else 10 ^ digitsVal ds)
          else 1)"

definition parseUnsigned :: "string \<Rightarrow> number" where
  "parseUnsigned s =
     (if isPrefixOf ''Infinity'' s then Infinity
      else
        (let ip = takeWhile isDigit s;
             r1 = dropWhile isDigit s;
             hasDot = (case r1 of [] \<Rightarrow> False | c # _ \<Rightarrow> c = CHR ''.'');
             fp = (if hasDot then takeWhile isDigit (tl r1) else []);
             r2 = (if hasDot then dropWhile isDigit (tl r1) else r1)
         in if ip = [] \<and> fp = [] then NaN
            else Fin (rat_of_nat (digitsVal (ip @ fp)) / 10 ^ length fp * exponentFactor r2)))"

fun negate :: "number \<Rightarrow> number" where
  "negate NaN = NaN"
| "negate (Fin r) = Fin (- r)"
| "negate Infinity = NegInfinity"
| "negate NegInfinity = Infinity"

definition parseFloat :: "string \<Rightarrow> number" where
  "parseFloat str =
     (case dropWhile isWhiteSpace str of
        [] \<Rightarrow> NaN
      | c # r \<Rightarrow>
          if c = CHR ''-'' then negate (parseUnsigned r)
          else if c = CHR ''+'' then parseUnsigned r
          else parseUnsigned (c # r))"

section \<open>Upload\<close>

definition validFileTypes :: "string list" where
  "validFileTypes = [''image/jpeg'', ''image/png'', ''image/tiff'']"

text \<open>
  \<open>handleFileUpload\<close> up to the point where it hands the file to the image decoder. The
  second component is the file whose decoding was started (\<open>img.src = ...\<close>), if any;
  the decoder answers later through \<open>imgOnload\<close> or \<open>imgOnerror\<close>.
\<close>

definition handleFileUpload :: "UploadedFile option \<Rightarrow> AppState \<Rightarrow> AppState \<times> UploadedFile option" where
  "handleFileUpload file s =
     (case file of
        None \<Rightarrow> (s, None)
      | Some f \<Rightarrow>
          if file_type f \<notin> set validFileTypes
          then (s\<lparr>error := Some ''Invalid file type. Please upload JPG, PNG, or TIFF.''\<rparr>, None)
          else (s\<lparr>error := None, fileName := file_name f, fileType := file_type f\<rparr>, Some f))"

definition imgOnload :: "HTMLImageElement \<Rightarrow> AppState \<Rightarrow> AppState" where
  "imgOnload img s = s\<lparr>sourceImage := Some img, splitSections := []\<rparr>"

definition imgOnerror :: "AppState \<Rightarrow> AppState" where
  "imgOnerror s = s\<lparr>error := Some ''Failed to load image. Please try another file.''\<rparr>"

section \<open>Partitioner\<close>

text \<open>
  What the browser decides during a split: whether \<open>getContext('2d')\<close> of the main
  canvas and of a section canvas of a given bitmap size is non-null, and the PNG data
  URL that \<open>toDataURL\<close> gives for a drawn section canvas.
\<close>

record Canvas2D =
  canvasContext :: bool
  sectionContext :: "nat \<Rightarrow> nat \<Rightarrow> bool"
  toDataURL :: "SectionCanvas \<Rightarrow> string"

datatype Thrown = IndexSizeError | TypeError

text \<open>A crop rectangle as \<open>createSection\<close> receives it: x, y, width, height.\<close>

type_synonym Region = "rat \<times> rat \<times> rat \<times> rat"

text \<open>
  The argument lists of the four \<open>createSection\<close> calls, in the order of the pushes
  (top-left, top-right, bottom-left, bottom-right). \<open>halfWidth\<close> and \<open>halfHeight\<close> are
  the plain quotients \<open>canvas.width / 2\<close> and \<open>canvas.height / 2\<close>: the source rounds
  nowhere, and halving an integer is exact in a double.
\<close>

definition sectionRegions :: "nat \<Rightarrow> nat \<Rightarrow> Region list" where
  "sectionRegions canvasWidth canvasHeight =
     (let halfWidth = rat_of_nat canvasWidth / 2;
          halfHeight = rat_of_nat canvasHeight / 2
      in [(0, 0, halfWidth, halfHeight),
          (halfWidth, 0, halfWidth, halfHeight),
          (0, halfHeight, halfWidth, halfHeight),
          (halfWidth, halfHeight, halfWidth, halfHeight)])"

text \<open>
  The canvas that \<open>createSection\<close> builds for a rectangle. Assigning a fractional value
  to a canvas's \<open>width\<close> or \<open>height\<close> truncates it (the attributes are unsigned longs);
  \<open>drawImage\<close> is then called with the rectangle itself, fraction included, as the
  source rectangle and with a destination of the same size at the origin.
\<close>

definition sectionCanvas :: "HTMLImageElement \<Rightarrow> Region \<Rightarrow> SectionCanvas" where
  "sectionCanvas img r =
     (case r of (x, y, w, h) \<Rightarrow>
        \<lparr>canvas_width = nat \<lfloor>w\<rfloor>, canvas_height = nat \<lfloor>h\<rfloor>, drawn_image = img,
         drawn_sx = x, drawn_sy = y, drawn_sw = w, drawn_sh = h\<rparr>)"

text \<open>
  \<open>createSection\<close>: null when the section canvas has no context; otherwise the PNG of
  the canvas, with half the output dimensions as the physical size whatever the
  rectangle.
\<close>

definition createSection ::
  "Canvas2D \<Rightarrow> HTMLImageElement \<Rightarrow> Dimensions \<Rightarrow> Region \<Rightarrow> ImageSection option" where
  "createSection env img outputDimensions r =
     (let canvas = sectionCanvas img r
      in if \<not> sectionContext env (canvas_width canvas) (canvas_height canvas)
         then None
         else Some
           \<lparr>dataUrl = toDataURL env canvas,
            dimensions = \<lparr>width = div2 (width outputDimensions),
                          height = div2 (height outputDimensions)\<rparr>\<rparr>)"

text \<open>
  The part of the source image that ends up in a section's bitmap: the drawing is not
  scaled, so the bitmap holds the source rectangle cut down to the bitmap's own width
  and height.
\<close>

definition visibleRegion :: "SectionCanvas \<Rightarrow> Region" where
  "visibleRegion c =
     (drawn_sx c, drawn_sy c,
      min (drawn_sw c) (rat_of_nat (canvas_width c)),
      min (drawn_sh c) (rat_of_nat (canvas_height c)))"

text \<open>
  \<open>processImage\<close>: the state after the handler, and the exception it ended with, if
  any. \<open>getImageData\<close> throws an \<open>IndexSizeError\<close> on an empty rectangle, which leaves
  \<open>isProcessing\<close> set; otherwise the two \<open>setIsProcessing\<close> calls net to false.
\<close>

definition processImage :: "Canvas2D \<Rightarrow> AppState \<Rightarrow> AppState \<times> Thrown option" where
  "processImage env s =
     (case sourceImage s of
        None \<Rightarrow> (s, None)
      | Some img \<Rightarrow>
          (let outputDimensions = getCurrentDimensions s
           in if \<not> canvasContext env
              then (s\<lparr>error := Some ''Canvas not supported in your browser.'',
                      isProcessing := False\<rparr>, None)
              else if img_width img = 0 \<or> img_height img = 0
              then (s\<lparr>isProcessing := True\<rparr>, Some IndexSizeError)
              else (s\<lparr>splitSections :=
                         map (createSection env img outputDimensions)
                           (sectionRegions (img_width img) (img_height img)),
                       isProcessing := False\<rparr>, None)))"

subsection \<open>The partition the specification describes\<close>

text \<open>
  The regions as the specification words them, with the midpoints rounded down, for
  comparison with \<open>sectionRegions\<close>.
\<close>

definition specRegions :: "nat \<Rightarrow> nat \<Rightarrow> Region list" where
  "specRegions W H =
     (let midX = W div 2; midY = H div 2
      in [(0, 0, rat_of_nat midX, rat_of_nat midY),
          (rat_of_nat midX, 0, rat_of_nat (W - midX), rat_of_nat midY),
          (0, rat_of_nat midY, rat_of_nat midX, rat_of_nat (H - midY)),
          (rat_of_nat midX, rat_of_nat midY, rat_of_nat (W - midX), rat_of_nat (H - midY))])"

text \<open>
  Whether the point \<open>(px, py)\<close> of the image plane lies in a region, a region being
  closed on its left and upper edge and open on the other two.
\<close>

definition covers :: "Region \<Rightarrow> rat \<Rightarrow> rat \<Rightarrow> bool" where
  "covers r px py =
     (case r of (x, y, w, h) \<Rightarrow> x \<le> px \<and> px < x + w \<and> y \<le> py \<and> py < y + h)"

section \<open>Export\<close>

text \<open>
  \<open>str.split(sep)\<close> for a one-character separator: the pieces between the separators,
  at least one.
\<close>

fun split_on :: "char \<Rightarrow> string \<Rightarrow> string list" where
  "split_on sep [] = [[]]"
| "split_on sep (c # cs) =
     (if c = sep then [] # split_on sep cs
      else (case split_on sep cs of
              [] \<Rightarrow> [[c]]
            | p # ps \<Rightarrow> (c # p) # ps))"

text \<open>Reading an array element, \<open>undefined\<close> out of range.\<close>

fun at_index :: "'a list \<Rightarrow> nat \<Rightarrow> 'a option" where
  "at_index [] i = None"
| "at_index (x # xs) 0 = Some x"
| "at_index (x # xs) (Suc i) = at_index xs i"

text \<open>A string value inside a template literal.\<close>

definition interpolate :: "string option \<Rightarrow> string" where
  "interpolate v = (case v of None \<Rightarrow> ''undefined'' | Some str \<Rightarrow> str)"

text \<open>The decimal digits of a natural number, as a template literal prints it.\<close>

fun showNat :: "nat \<Rightarrow> string" where
  "showNat n =
     (if n < 10 then [char_of (48 + n)]
      else showNat (n div 10) @ [char_of (48 + n mod 10)])"

declare showNat.simps [simp del]

text \<open>The name both download paths build for the section at a zero-based index.\<close>

definition sectionFileName :: "string \<Rightarrow> nat \<Rightarrow> string" where
  "sectionFileName name index =
     interpolate (at_index (split_on CHR ''.'' name) 0)
       @ ''_section_'' @ showNat (index + 1) @ ''.png''"

text \<open>The link that \<open>downloadSection\<close> creates and clicks.\<close>

record DownloadLink =
  href :: string
  download :: string

definition downloadSection :: "AppState \<Rightarrow> string \<Rightarrow> nat \<Rightarrow> DownloadLink" where
  "downloadSection s url index = \<lparr>href = url, download = sectionFileName (fileName s) index\<rparr>"

text \<open>
  The archive handed to \<open>saveAs\<close>: its file name, its folder and the folder's entries,
  each a name with the base64 text after the first comma of the data URL
  (\<open>undefined\<close> when the URL has no comma).
\<close>

record Archive =
  zipName :: string
  folderName :: string
  entries :: "(string \<times> string option) list"

datatype DownloadResult = NoAction | Rejected Thrown | Saved Archive

text \<open>
  The body of \<open>splitSections.forEach\<close>, from a starting index: reading \<open>dataUrl\<close> of a
  \<open>null\<close> section throws a \<open>TypeError\<close>.
\<close>

fun addSections :: "string \<Rightarrow> nat \<Rightarrow> ImageSection option list \<Rightarrow> Thrown + (string \<times> string option) list" where
  "addSections name index [] = Inr []"
| "addSections name index (None # rest) = Inl TypeError"
| "addSections name index (Some section # rest) =
     (case addSections name (index + 1) rest of
        Inl e \<Rightarrow> Inl e
      | Inr es \<Rightarrow>
          Inr ((sectionFileName name index, at_index (split_on CHR '','' (dataUrl section)) 1) # es))"

text \<open>
  \<open>downloadAllSections\<close>, with \<open>folderOk\<close> telling whether \<open>zip.folder\<close> returned a
  folder. The handler calls no state setter: the state comes back as it went in.
\<close>

definition downloadAllSections :: "bool \<Rightarrow> AppState \<Rightarrow> AppState \<times> DownloadResult" where
  "downloadAllSections folderOk s =
     (if length (splitSections s) = 0 then (s, NoAction)
      else if \<not> folderOk then (s, NoAction)
      else (case addSections (fileName s) 0 (splitSections s) of
              Inl e \<Rightarrow> (s, Rejected e)
            | Inr es \<Rightarrow>
                (s, Saved \<lparr>zipName = interpolate (at_index (split_on CHR ''.'' (fileName s)) 0)
                                       @ ''_split_images.zip'',
                           folderName = ''split_images'',
                           entries = es\<rparr>)))"

section \<open>Sample inputs\<close>

text \<open>Concrete browsers, images and states on which the properties below are run.\<close>

definition sampleCanvas :: Canvas2D where
  "sampleCanvas =
     \<lparr>canvasContext = True, sectionContext = (\<lambda>cw ch. True),
      toDataURL = (\<lambda>c. ''data:image/png;base64,'' @ showNat (canvas_width c) @ ''x''
                          @ showNat (canvas_height c))\<rparr>"

definition noSectionCanvas :: Canvas2D where
  "noSectionCanvas = sampleCanvas\<lparr>sectionContext := (\<lambda>cw ch. False)\<rparr>"

definition noCanvas :: Canvas2D where
  "noCanvas = sampleCanvas\<lparr>canvasContext := False\<rparr>"

definition sampleImage :: HTMLImageElement where
  "sampleImage = \<lparr>img_width = 801, img_height = 600, img_src = ''blob:photo''\<rparr>"

definition loadedState :: AppState where
  "loadedState =
     imgOnload sampleImage
       (fst (handleFileUpload (Some \<lparr>file_name = ''photo.JPG'', file_type = ''image/jpeg''\<rparr>)
          initialState))"

definition sampleSection :: ImageSection where
  "sampleSection =
     \<lparr>dataUrl = ''data:image/png;base64,AAAA'',
      dimensions = \<lparr>width = Fin (21 / 2), height = Fin (297 / 20)\<rparr>\<rparr>"

section \<open>Properties\<close>

subsection \<open>Auxiliary facts\<close>

lemma split_on_nonempty: "split_on sep s \<noteq> []"
  by (induction s) (auto split: list.splits)

lemma split_on_first: "at_index (split_on sep s) 0 = Some (takeWhile (\<lambda>c. c \<noteq> sep) s)"
proof (induction s)
  case Nil
  then show ?case by simp
next
  case (Cons c cs)
  then show ?case
    by (cases "split_on sep cs") (auto simp: split_on_nonempty)
qed

lemma showNat_digits:
  "showNat (0 + 1) = ''1''" "showNat (1 + 1) = ''2''"
  "showNat (2 + 1) = ''3''" "showNat (3 + 1) = ''4''"
  by code_simp+

lemma sectionFileName_base:
  "sectionFileName name index
     = takeWhile (\<lambda>c. c \<noteq> CHR ''.'') name @ ''_section_'' @ showNat (index + 1) @ ''.png''"
  by (simp add: sectionFileName_def split_on_first interpolate_def)

lemma floor_half: "nat \<lfloor>rat_of_nat n / 2\<rfloor> = n div 2"
  using floor_divide_of_nat_eq [of n 2, where ?'a = rat] by simp

lemma regions_even:
  assumes "even W" "even H"
  shows "sectionRegions W H = specRegions W H"
proof -
  from assms(1) obtain k where k: "W = 2 * k" by (elim evenE)
  from assms(2) obtain l where l: "H = 2 * l" by (elim evenE)
  from k l show ?thesis by (simp add: sectionRegions_def specRegions_def Let_def)
qed

lemma sectionRegions_list:
  "sectionRegions W H =
     [(0, 0, rat_of_nat W / 2, rat_of_nat H / 2),
      (rat_of_nat W / 2, 0, rat_of_nat W / 2, rat_of_nat H / 2),
      (0, rat_of_nat H / 2, rat_of_nat W / 2, rat_of_nat H / 2),
      (rat_of_nat W / 2, rat_of_nat H / 2, rat_of_nat W / 2, rat_of_nat H / 2)]"
  by (simp add: sectionRegions_def Let_def)

lemma processImage_split:
  assumes "sourceImage s = Some img" "1 \<le> img_width img" "1 \<le> img_height img"
    "canvasContext env"
  shows "processImage env s =
     (s\<lparr>splitSections := map (createSection env img (getCurrentDimensions s))
                            (sectionRegions (img_width img) (img_height img)),
        isProcessing := False\<rparr>, None)"
  using assms by (simp add: processImage_def Let_def)

lemma createSection_dimensions:
  assumes "sectionContext env (nat \<lfloor>w\<rfloor>) (nat \<lfloor>h\<rfloor>)"
  shows "map_option dimensions (createSection env img out (x, y, w, h))
     = Some \<lparr>width = div2 (width out), height = div2 (height out)\<rparr>"
  using assms by (simp add: createSection_def sectionCanvas_def Let_def)

lemma replicate_4: "replicate 4 x = [x, x, x, x]"
  by (simp add: eval_nat_numeral)

lemma parseFloat_samples:
  "parseFloat ''-5'' = Fin (- 5)" "parseFloat [] = NaN" "parseFloat ''abc'' = NaN"
  "parseFloat ''0'' = Fin 0" "parseFloat ''12.5'' = Fin (25 / 2)"
  by code_simp+

subsection \<open>Dimension resolver\<close>

text \<open>
  Claim C2. For each of the paper formats A4, A3, A2 and Custom and each orientation,
  the resolver returns the documented base dimensions (A4 = 21 x 29.7, A3 = 29.7 x 42,
  A2 = 42 x 59.4, Custom = the stored custom dimensions) unchanged under portrait and
  with width and height swapped under landscape.
\<close>

theorem getCurrentDimensions_table:
  "getCurrentDimensions (s\<lparr>paperFormat := A4, orientation := portrait\<rparr>)
     = \<lparr>width = Fin 21, height = Fin (297 / 10)\<rparr>
   \<and> getCurrentDimensions (s\<lparr>paperFormat := A4, orientation := landscape\<rparr>)
     = \<lparr>width = Fin (297 / 10), height = Fin 21\<rparr>
   \<and> getCurrentDimensions (s\<lparr>paperFormat := A3, orientation := portrait\<rparr>)
     = \<lparr>width = Fin (297 / 10), height = Fin 42\<rparr>
   \<and> getCurrentDimensions (s\<lparr>paperFormat := A3, orientation := landscape\<rparr>)
     = \<lparr>width = Fin 42, height = Fin (297 / 10)\<rparr>
   \<and> getCurrentDimensions (s\<lparr>paperFormat := A2, orientation := portrait\<rparr>)
     = \<lparr>width = Fin 42, height = Fin (594 / 10)\<rparr>
   \<and> getCurrentDimensions (s\<lparr>paperFormat := A2, orientation := landscape\<rparr>)
     = \<lparr>width = Fin (594 / 10), height = Fin 42\<rparr>
   \<and> getCurrentDimensions (s\<lparr>paperFormat := custom, orientation := portrait\<rparr>)
     = customDimensions s
   \<and> getCurrentDimensions (s\<lparr>paperFormat := custom, orientation := landscape\<rparr>)
     = \<lparr>width = height (customDimensions s), height = width (customDimensions s)\<rparr>"
  by (simp add: getCurrentDimensions_def Let_def)

text \<open>
  Claim C2, on the sample state: A4 portrait is 21 x 29.7, A4 landscape is 29.7 x 21.
\<close>

theorem getCurrentDimensions_table_witness:
  "getCurrentDimensions (initialState\<lparr>paperFormat := A4, orientation := portrait\<rparr>)
     = \<lparr>width = Fin 21, height = Fin (297 / 10)\<rparr>
   \<and> getCurrentDimensions (initialState\<lparr>paperFormat := A4, orientation := landscape\<rparr>)
     = \<lparr>width = Fin (297 / 10), height = Fin 21\<rparr>
   \<and> getCurrentDimensions (initialState\<lparr>paperFormat := custom, orientation := landscape\<rparr>)
     = \<lparr>width = Fin 20, height = Fin 20\<rparr>"
  using getCurrentDimensions_table [of initialState] by (simp add: initialState_def)

text \<open>
  Claim C9. The orientation toggle is an involution, and one toggle swaps the width and
  the height of the dimensions the resolver returns for the same paper format.
\<close>

theorem toggleOrientation_involution_swaps:
  "toggleOrientation (toggleOrientation s) = s
   \<and> paperFormat (toggleOrientation s) = paperFormat s
   \<and> getCurrentDimensions (toggleOrientation s)
     = \<lparr>width = height (getCurrentDimensions s), height = width (getCurrentDimensions s)\<rparr>"
proof -
  have inv: "toggleOrientation (toggleOrientation s) = s"
    by (cases "orientation s") (simp_all add: toggleOrientation_def)
  have fmt: "paperFormat (toggleOrientation s) = paperFormat s"
    by (simp add: toggleOrientation_def)
  have swap: "getCurrentDimensions (toggleOrientation s)
     = \<lparr>width = height (getCurrentDimensions s), height = width (getCurrentDimensions s)\<rparr>"
    by (cases "orientation s")
       (simp_all add: toggleOrientation_def getCurrentDimensions_def Let_def)
  from inv fmt swap show ?thesis by simp
qed

text \<open>Claim C9, on the initial state: two toggles give it back, one gives A4 landscape.\<close>

theorem toggleOrientation_involution_swaps_witness:
  "toggleOrientation (toggleOrientation initialState) = initialState
   \<and> getCurrentDimensions (toggleOrientation initialState)
     = \<lparr>width = Fin (297 / 10), height = Fin 21\<rparr>"
  using toggleOrientation_involution_swaps [of initialState]
  by (simp add: initialState_def getCurrentDimensions_def toggleOrientation_def Let_def)

subsection \<open>Custom dimension inputs\<close>

text \<open>
  Claim C10. For every string entered into the custom width or height field, the stored
  dimension becomes the \<open>parseFloat\<close> of the string when that is a non-zero number
  (negative numbers and infinities included) and 1 when it is \<open>NaN\<close> or zero; the
  other dimension and every other state cell, the error message among them, stay as
  they were, so nothing is rejected.
\<close>

theorem customDimensions_onChange:
  "customWidthChange pf v s
     = s\<lparr>customDimensions :=
           \<lparr>width = (if pf v = NaN \<or> pf v = Fin 0 then Fin 1 else pf v),
            height = height (customDimensions s)\<rparr>\<rparr>
   \<and> customHeightChange pf v s
     = s\<lparr>customDimensions :=
           \<lparr>width = width (customDimensions s),
            height = (if pf v = NaN \<or> pf v = Fin 0 then Fin 1 else pf v)\<rparr>\<rparr>
   \<and> error (customWidthChange pf v s) = error s
   \<and> error (customHeightChange pf v s) = error s"
proof -
  have or1: "js_or (pf v) (Fin 1) = (if pf v = NaN \<or> pf v = Fin 0 then Fin 1 else pf v)"
    by (cases "pf v") (simp_all add: js_or_def)
  have w: "customWidthChange pf v s
     = s\<lparr>customDimensions :=
           \<lparr>width = (if pf v = NaN \<or> pf v = Fin 0 then Fin 1 else pf v),
            height = height (customDimensions s)\<rparr>\<rparr>"
    unfolding customWidthChange_def or1 by (cases "customDimensions s") simp
  have h: "customHeightChange pf v s
     = s\<lparr>customDimensions :=
           \<lparr>width = width (customDimensions s),
            height = (if pf v = NaN \<or> pf v = Fin 0 then Fin 1 else pf v)\<rparr>\<rparr>"
    unfolding customHeightChange_def or1 by (cases "customDimensions s") simp
  have e: "error (customWidthChange pf v s) = error s"
    "error (customHeightChange pf v s) = error s"
    by (simp_all add: customWidthChange_def customHeightChange_def)
  from w h e show ?thesis by blast
qed

text \<open>
  Claim C10 on entered strings: \<open>-5\<close> is stored as it is, the empty string, \<open>abc\<close> and
  \<open>0\<close> are stored as 1, \<open>12.5\<close> is stored as 12.5.
\<close>

theorem customDimensions_onChange_witness:
  "customDimensions (customWidthChange parseFloat ''-5'' initialState)
     = \<lparr>width = Fin (- 5), height = Fin 20\<rparr>
   \<and> customDimensions (customWidthChange parseFloat [] initialState)
     = \<lparr>width = Fin 1, height = Fin 20\<rparr>
   \<and> customDimensions (customHeightChange parseFloat ''abc'' initialState)
     = \<lparr>width = Fin 20, height = Fin 1\<rparr>
   \<and> customDimensions (customHeightChange parseFloat ''0'' initialState)
     = \<lparr>width = Fin 20, height = Fin 1\<rparr>
   \<and> customDimensions (customWidthChange parseFloat ''12.5'' initialState)
     = \<lparr>width = Fin (25 / 2), height = Fin 20\<rparr>"
  using customDimensions_onChange [of parseFloat "''-5''" initialState]
    customDimensions_onChange [of parseFloat "[]" initialState]
    customDimensions_onChange [of parseFloat "''abc''" initialState]
    customDimensions_onChange [of parseFloat "''0''" initialState]
    customDimensions_onChange [of parseFloat "''12.5''" initialState]
  by (simp add: parseFloat_samples initialState_def)

text \<open>
  Claim C4, as stated, fails: with the Custom format selected and \<open>-5\<close> entered as the
  width, no error is reported and the resolver returns a width of -5; with \<open>abc\<close>
  entered, no error is reported either and the resolver returns a width of 1.
\<close>

theorem custom_validation_counterexample:
  "getCurrentDimensions (customWidthChange parseFloat ''-5'' (initialState\<lparr>paperFormat := custom\<rparr>))
     = \<lparr>width = Fin (- 5), height = Fin 20\<rparr>
   \<and> error (customWidthChange parseFloat ''-5'' (initialState\<lparr>paperFormat := custom\<rparr>)) = None
   \<and> getCurrentDimensions (customWidthChange parseFloat ''abc'' (initialState\<lparr>paperFormat := custom\<rparr>))
     = \<lparr>width = Fin 1, height = Fin 20\<rparr>
   \<and> error (customWidthChange parseFloat ''abc'' (initialState\<lparr>paperFormat := custom\<rparr>)) = None"
  by (simp add: customWidthChange_def getCurrentDimensions_def initialState_def js_or_def
      parseFloat_samples)

text \<open>
  Claim C4, amended. With the Custom format selected the resolver never fails and
  reports no validation error: it returns the stored custom width and height, swapped
  under landscape. Entries are handled at the two inputs instead, without any error
  message: the error cell is left as it was, and an entry whose \<open>parseFloat\<close> is \<open>NaN\<close>
  or zero is stored as 1.
\<close>

theorem custom_resolver_total:
  assumes "paperFormat s = custom"
  shows "getCurrentDimensions s
     = (if orientation s = landscape
        then \<lparr>width = height (customDimensions s), height = width (customDimensions s)\<rparr>
        else customDimensions s)
   \<and> error (customWidthChange pf v s) = error s
   \<and> error (customHeightChange pf v s) = error s
   \<and> (pf v = NaN \<or> pf v = Fin 0 \<longrightarrow>
        customDimensions (customWidthChange pf v s)
          = \<lparr>width = Fin 1, height = height (customDimensions s)\<rparr>
        \<and> customDimensions (customHeightChange pf v s)
          = \<lparr>width = width (customDimensions s), height = Fin 1\<rparr>)"
proof -
  have res: "getCurrentDimensions s
     = (if orientation s = landscape
        then \<lparr>width = height (customDimensions s), height = width (customDimensions s)\<rparr>
        else customDimensions s)"
    using assms by (simp add: getCurrentDimensions_def Let_def)
  have e1: "error (customWidthChange pf v s) = error s"
    by (simp add: customWidthChange_def)
  have e2: "error (customHeightChange pf v s) = error s"
    by (simp add: customHeightChange_def)
  have st: "pf v = NaN \<or> pf v = Fin 0 \<longrightarrow>
        customDimensions (customWidthChange pf v s)
          = \<lparr>width = Fin 1, height = height (customDimensions s)\<rparr>
        \<and> customDimensions (customHeightChange pf v s)
          = \<lparr>width = width (customDimensions s), height = Fin 1\<rparr>"
    by (cases "customDimensions s")
       (auto simp: customWidthChange_def customHeightChange_def js_or_def)
  show ?thesis
    by (intro conjI res e1 e2 st)
qed

text \<open>
  Claim C4 with the Custom format selected and \<open>abc\<close> entered: the resolver returns the
  stored 20 x 20, no error is set, and the entry is stored as 1.
\<close>

theorem custom_resolver_total_witness:
  "paperFormat (initialState\<lparr>paperFormat := custom\<rparr>) = custom
   \<and> parseFloat ''abc'' = NaN
   \<and> getCurrentDimensions (initialState\<lparr>paperFormat := custom\<rparr>)
     = \<lparr>width = Fin 20, height = Fin 20\<rparr>
   \<and> error (customWidthChange parseFloat ''abc'' (initialState\<lparr>paperFormat := custom\<rparr>)) = None
   \<and> customDimensions (customWidthChange parseFloat ''abc'' (initialState\<lparr>paperFormat := custom\<rparr>))
     = \<lparr>width = Fin 1, height = Fin 20\<rparr>
   \<and> customDimensions (customHeightChange parseFloat ''abc'' (initialState\<lparr>paperFormat := custom\<rparr>))
     = \<lparr>width = Fin 20, height = Fin 1\<rparr>"
proof -
  have h: "paperFormat (initialState\<lparr>paperFormat := custom\<rparr>) = custom"
    by simp
  have p: "parseFloat ''abc'' = NaN"
    by (rule parseFloat_samples)
  note T = custom_resolver_total [OF h, of parseFloat "''abc''"]
  have r: "getCurrentDimensions (initialState\<lparr>paperFormat := custom\<rparr>)
     = \<lparr>width = Fin 20, height = Fin 20\<rparr>"
    using T [THEN conjunct1] by (simp add: initialState_def)
  have e: "error (customWidthChange parseFloat ''abc'' (initialState\<lparr>paperFormat := custom\<rparr>)) = None"
    using T [THEN conjunct2, THEN conjunct1] by (simp add: initialState_def)
  have st: "customDimensions (customWidthChange parseFloat ''abc'' (initialState\<lparr>paperFormat := custom\<rparr>))
          = \<lparr>width = Fin 1, height = Fin 20\<rparr>
        \<and> customDimensions (customHeightChange parseFloat ''abc'' (initialState\<lparr>paperFormat := custom\<rparr>))
          = \<lparr>width = Fin 20, height = Fin 1\<rparr>"
    using T [THEN conjunct2, THEN conjunct2, THEN conjunct2] p by (simp add: initialState_def)
  show ?thesis
    by (intro conjI h p r e st [THEN conjunct1] st [THEN conjunct2])
qed

subsection \<open>Upload\<close>

text \<open>
  Claim C6. For every uploaded file whose content type is not one of image/jpeg,
  image/png and image/tiff, the upload handler sets the invalid-file-type message,
  starts no decoding, and leaves the source image, the file name, the file type and the
  sections as they were.
\<close>

theorem handleFileUpload_invalid_type:
  assumes "file_type f \<notin> {''image/jpeg'', ''image/png'', ''image/tiff''}"
  shows "handleFileUpload (Some f) s
     = (s\<lparr>error := Some ''Invalid file type. Please upload JPG, PNG, or TIFF.''\<rparr>, None)
   \<and> sourceImage (fst (handleFileUpload (Some f) s)) = sourceImage s
   \<and> fileName (fst (handleFileUpload (Some f) s)) = fileName s
   \<and> fileType (fst (handleFileUpload (Some f) s)) = fileType s
   \<and> splitSections (fst (handleFileUpload (Some f) s)) = splitSections s"
  using assms by (simp add: handleFileUpload_def validFileTypes_def)

text \<open>
  Claim C6 on a text/plain file, uploaded after a JPEG has been loaded: the loaded state
  keeps its image and names and only gains the message.
\<close>

theorem handleFileUpload_invalid_type_witness:
  "file_type \<lparr>file_name = ''notes.txt'', file_type = ''text/plain''\<rparr>
     \<notin> {''image/jpeg'', ''image/png'', ''image/tiff''}
   \<and> handleFileUpload (Some \<lparr>file_name = ''notes.txt'', file_type = ''text/plain''\<rparr>) loadedState
     = (loadedState\<lparr>error := Some ''Invalid file type. Please upload JPG, PNG, or TIFF.''\<rparr>, None)
   \<and> fileName (fst (handleFileUpload
         (Some \<lparr>file_name = ''notes.txt'', file_type = ''text/plain''\<rparr>) loadedState))
     = ''photo.JPG''"
proof -
  have h: "file_type \<lparr>file_name = ''notes.txt'', file_type = ''text/plain''\<rparr>
     \<notin> {''image/jpeg'', ''image/png'', ''image/tiff''}"
    by simp
  have n: "fileName loadedState = ''photo.JPG''"
    by (simp add: loadedState_def imgOnload_def handleFileUpload_def validFileTypes_def)
  show ?thesis
    using h n handleFileUpload_invalid_type [OF h, of loadedState] by simp
qed

subsection \<open>Export\<close>

text \<open>
  Claim C7. For every original file name and every index 1 to 4, the exported file name
  is the original name up to its first dot (the dot and what follows it removed)
  followed by \<open>_section_<i>.png\<close>. The single-section download uses that name, and
  the archive of four sections holds exactly these four names, in order.
\<close>

theorem sectionFileName_strips_after_first_dot:
  assumes "splitSections s = [Some a, Some b, Some c, Some d]"
  shows "sectionFileName name 0 = takeWhile (\<lambda>c. c \<noteq> CHR ''.'') name @ ''_section_1.png''
   \<and> sectionFileName name 1 = takeWhile (\<lambda>c. c \<noteq> CHR ''.'') name @ ''_section_2.png''
   \<and> sectionFileName name 2 = takeWhile (\<lambda>c. c \<noteq> CHR ''.'') name @ ''_section_3.png''
   \<and> sectionFileName name 3 = takeWhile (\<lambda>c. c \<noteq> CHR ''.'') name @ ''_section_4.png''
   \<and> download (downloadSection s url i) = sectionFileName (fileName s) i
   \<and> (\<exists>ar. downloadAllSections True s = (s, Saved ar)
          \<and> map fst (entries ar) = map (sectionFileName (fileName s)) [0, 1, 2, 3])"
proof -
  have n0: "sectionFileName name 0 = takeWhile (\<lambda>c. c \<noteq> CHR ''.'') name @ ''_section_1.png''"
    unfolding sectionFileName_base showNat_digits by simp
  have n1: "sectionFileName name 1 = takeWhile (\<lambda>c. c \<noteq> CHR ''.'') name @ ''_section_2.png''"
    unfolding sectionFileName_base showNat_digits by simp
  have n2: "sectionFileName name 2 = takeWhile (\<lambda>c. c \<noteq> CHR ''.'') name @ ''_section_3.png''"
    unfolding sectionFileName_base showNat_digits by simp
  have n3: "sectionFileName name 3 = takeWhile (\<lambda>c. c \<noteq> CHR ''.'') name @ ''_section_4.png''"
    unfolding sectionFileName_base showNat_digits by simp
  have dl: "download (downloadSection s url i) = sectionFileName (fileName s) i"
    by (simp add: downloadSection_def)
  have add: "addSections (fileName s) 0 [Some a, Some b, Some c, Some d]
     = Inr [(sectionFileName (fileName s) 0, at_index (split_on CHR '','' (dataUrl a)) 1),
            (sectionFileName (fileName s) 1, at_index (split_on CHR '','' (dataUrl b)) 1),
            (sectionFileName (fileName s) 2, at_index (split_on CHR '','' (dataUrl c)) 1),
            (sectionFileName (fileName s) 3, at_index (split_on CHR '','' (dataUrl d)) 1)]"
    by (simp add: numeral_2_eq_2 numeral_3_eq_3)
  have zip: "\<exists>ar. downloadAllSections True s = (s, Saved ar)
          \<and> map fst (entries ar) = map (sectionFileName (fileName s)) [0, 1, 2, 3]"
    using assms add by (simp add: downloadAllSections_def)
  from n0 n1 n2 n3 dl zip show ?thesis by blast
qed

text \<open>
  Claim C7 on the file name \<open>photo.JPG\<close>: the second section is
  \<open>photo_section_2.png\<close>, and the archive of four sections lists sections 1 to 4.
\<close>

theorem sectionFileName_strips_after_first_dot_witness:
  "splitSections (loadedState\<lparr>splitSections := replicate 4 (Some sampleSection)\<rparr>)
     = [Some sampleSection, Some sampleSection, Some sampleSection, Some sampleSection]
   \<and> sectionFileName ''photo.JPG'' 1 = ''photo_section_2.png''
   \<and> download (downloadSection (loadedState\<lparr>splitSections := replicate 4 (Some sampleSection)\<rparr>)
        (dataUrl sampleSection) 1) = ''photo_section_2.png''
   \<and> (\<exists>ar. downloadAllSections True (loadedState\<lparr>splitSections := replicate 4 (Some sampleSection)\<rparr>)
          = (loadedState\<lparr>splitSections := replicate 4 (Some sampleSection)\<rparr>, Saved ar)
        \<and> map fst (entries ar)
          = [''photo_section_1.png'', ''photo_section_2.png'',
             ''photo_section_3.png'', ''photo_section_4.png''])"
proof -
  have h: "splitSections (loadedState\<lparr>splitSections := replicate 4 (Some sampleSection)\<rparr>)
     = [Some sampleSection, Some sampleSection, Some sampleSection, Some sampleSection]"
    by (simp add: replicate_4)
  have n: "fileName (loadedState\<lparr>splitSections := replicate 4 (Some sampleSection)\<rparr>) = ''photo.JPG''"
    by (simp add: loadedState_def imgOnload_def handleFileUpload_def validFileTypes_def)
  show ?thesis
    using h n
      sectionFileName_strips_after_first_dot [OF h, of "''photo.JPG''" "dataUrl sampleSection" 1]
    by auto
qed

text \<open>
  Claim C8. Invoking the archive export while the list of sections is empty does
  nothing: no archive is produced and the state is unchanged.
\<close>

theorem downloadAllSections_empty:
  assumes "splitSections s = []"
  shows "downloadAllSections folderOk s = (s, NoAction)"
  using assms by (simp add: downloadAllSections_def)

text \<open>Claim C8 on the state right after an image has been loaded.\<close>

theorem downloadAllSections_empty_witness:
  "splitSections loadedState = [] \<and> downloadAllSections True loadedState = (loadedState, NoAction)"
proof -
  have h: "splitSections loadedState = []"
    by (simp add: loadedState_def imgOnload_def)
  show ?thesis
    using h downloadAllSections_empty [OF h, of True] by simp
qed

subsection \<open>Partitioner\<close>

text \<open>
  Claim C1 fails on the code for a source image of odd width. For the loaded 801 x 600
  image \<open>processImage\<close> stores four sections, made from the rectangles
  (0, 0, 400.5, 300), (400.5, 0, 400.5, 300), (0, 300, 400.5, 300) and
  (400.5, 300, 400.5, 300): these are not the regions of the specification, whose left
  regions are 400 wide and whose right regions are 401 wide. Each of the four section
  bitmaps is 400 x 300 pixels, so the right sections are one pixel narrower than
  specified, and the point (400.25, 10) of pixel column 400 is held by no section at
  all: the sections do not tile the image. On a 1 x 1 image the four bitmaps are empty.
\<close>

theorem processImage_odd_width_loses_pixels:
  "splitSections (fst (processImage sampleCanvas loadedState))
     = map (\<lambda>r. Some \<lparr>dataUrl = toDataURL sampleCanvas (sectionCanvas sampleImage r),
                       dimensions = \<lparr>width = Fin (21 / 2), height = Fin (297 / 20)\<rparr>\<rparr>)
         (sectionRegions 801 600)
   \<and> sectionRegions 801 600
     = [(0, 0, 801 / 2, 300), (801 / 2, 0, 801 / 2, 300),
        (0, 300, 801 / 2, 300), (801 / 2, 300, 801 / 2, 300)]
   \<and> specRegions 801 600
     = [(0, 0, 400, 300), (400, 0, 401, 300), (0, 300, 400, 300), (400, 300, 401, 300)]
   \<and> sectionRegions 801 600 \<noteq> specRegions 801 600
   \<and> map (\<lambda>r. (canvas_width (sectionCanvas sampleImage r),
                canvas_height (sectionCanvas sampleImage r))) (sectionRegions 801 600)
     = [(400, 300), (400, 300), (400, 300), (400, 300)]
   \<and> filter (\<lambda>r. covers (visibleRegion (sectionCanvas sampleImage r)) (1601 / 4) 10)
        (sectionRegions 801 600) = []
   \<and> filter (\<lambda>r. covers r (1601 / 4) 10) (specRegions 801 600) = [(400, 0, 401, 300)]
   \<and> map (\<lambda>r. (canvas_width (sectionCanvas sampleImage r),
                canvas_height (sectionCanvas sampleImage r))) (sectionRegions 1 1)
     = [(0, 0), (0, 0), (0, 0), (0, 0)]"
proof -
  have src: "sourceImage loadedState = Some sampleImage"
    by (simp add: loadedState_def imgOnload_def)
  have sz: "1 \<le> img_width sampleImage" "1 \<le> img_height sampleImage"
    by (simp_all add: sampleImage_def)
  have wh: "img_width sampleImage = 801" "img_height sampleImage = 600"
    by (simp_all add: sampleImage_def)
  have ctx: "canvasContext sampleCanvas"
    by (simp add: sampleCanvas_def)
  have sctx: "sectionContext sampleCanvas cw ch" for cw ch
    by (simp add: sampleCanvas_def)
  have out: "getCurrentDimensions loadedState = \<lparr>width = Fin 21, height = Fin (297 / 10)\<rparr>"
    by (simp add: getCurrentDimensions_def Let_def loadedState_def imgOnload_def
        handleFileUpload_def validFileTypes_def initialState_def)
  have cs: "createSection sampleCanvas sampleImage \<lparr>width = Fin 21, height = Fin (297 / 10)\<rparr> r
     = Some \<lparr>dataUrl = toDataURL sampleCanvas (sectionCanvas sampleImage r),
             dimensions = \<lparr>width = Fin (21 / 2), height = Fin (297 / 20)\<rparr>\<rparr>" for r
    by (simp add: createSection_def Let_def sctx)
  have a: "splitSections (fst (processImage sampleCanvas loadedState))
     = map (\<lambda>r. Some \<lparr>dataUrl = toDataURL sampleCanvas (sectionCanvas sampleImage r),
                       dimensions = \<lparr>width = Fin (21 / 2), height = Fin (297 / 20)\<rparr>\<rparr>)
         (sectionRegions 801 600)"
    by (simp add: processImage_split [OF src sz ctx] out wh cs)
  have b: "sectionRegions 801 600
     = [(0, 0, 801 / 2, 300), (801 / 2, 0, 801 / 2, 300),
        (0, 300, 801 / 2, 300), (801 / 2, 300, 801 / 2, 300)]"
    by (simp add: sectionRegions_def Let_def)
  have c: "specRegions 801 600
     = [(0, 0, 400, 300), (400, 0, 401, 300), (0, 300, 400, 300), (400, 300, 401, 300)]"
    by (simp add: specRegions_def Let_def)
  have d: "sectionRegions 801 600 \<noteq> specRegions 801 600"
    unfolding b c by simp
  have fl: "\<lfloor>801 / 2 :: rat\<rfloor> = 400" "\<lfloor>1 / 2 :: rat\<rfloor> = 0"
    by (simp_all add: floor_eq_iff)
  have e: "map (\<lambda>r. (canvas_width (sectionCanvas sampleImage r),
                canvas_height (sectionCanvas sampleImage r))) (sectionRegions 801 600)
     = [(400, 300), (400, 300), (400, 300), (400, 300)]"
    unfolding b by (simp add: sectionCanvas_def fl)
  have f: "filter (\<lambda>r. covers (visibleRegion (sectionCanvas sampleImage r)) (1601 / 4) 10)
        (sectionRegions 801 600) = []"
    unfolding b by (simp add: sectionCanvas_def visibleRegion_def covers_def fl)
  have g: "filter (\<lambda>r. covers r (1601 / 4) 10) (specRegions 801 600) = [(400, 0, 401, 300)]"
    unfolding c by (simp add: covers_def)
  have h: "map (\<lambda>r. (canvas_width (sectionCanvas sampleImage r),
                canvas_height (sectionCanvas sampleImage r))) (sectionRegions 1 1)
     = [(0, 0), (0, 0), (0, 0), (0, 0)]"
    by (simp add: sectionRegions_def Let_def sectionCanvas_def fl)
  show ?thesis
    by (intro conjI a b c d e f g h)
qed

text \<open>
  Claim C3. For every successful split (a source image of at least 1 x 1 pixels is
  loaded, the canvas context is available and so is the context of a section canvas),
  exactly four sections are stored, none of them null, and the physical dimensions of
  each are half the width and half the height of the current output dimensions,
  whatever the pixel size of the image.
\<close>

theorem processImage_physical_dimensions:
  assumes "sourceImage s = Some img" and "1 \<le> img_width img" and "1 \<le> img_height img"
    and "canvasContext env"
    and "sectionContext env (img_width img div 2) (img_height img div 2)"
  shows "map (map_option dimensions) (splitSections (fst (processImage env s)))
     = replicate 4 (Some \<lparr>width = div2 (width (getCurrentDimensions s)),
                           height = div2 (height (getCurrentDimensions s))\<rparr>)"
proof -
  have ctx: "sectionContext env (nat \<lfloor>rat_of_nat (img_width img) / 2\<rfloor>)
       (nat \<lfloor>rat_of_nat (img_height img) / 2\<rfloor>)"
    using assms(5) by (simp add: floor_half)
  have stored: "splitSections (fst (processImage env s))
     = map (createSection env img (getCurrentDimensions s))
         (sectionRegions (img_width img) (img_height img))"
    by (simp add: processImage_split [OF assms(1-4)])
  show ?thesis
    unfolding stored sectionRegions_list
    by (simp add: createSection_dimensions [OF ctx] replicate_4)
qed

text \<open>
  Claim C3 on custom dimensions 15 x 10 in portrait and an 801 x 600 image: each of the
  four sections is 7.5 x 5.
\<close>

theorem processImage_physical_dimensions_witness:
  "sourceImage (loadedState\<lparr>paperFormat := custom,
       customDimensions := \<lparr>width = Fin 15, height = Fin 10\<rparr>\<rparr>) = Some sampleImage
   \<and> 1 \<le> img_width sampleImage \<and> 1 \<le> img_height sampleImage
   \<and> canvasContext sampleCanvas
   \<and> sectionContext sampleCanvas (img_width sampleImage div 2) (img_height sampleImage div 2)
   \<and> map (map_option dimensions)
       (splitSections (fst (processImage sampleCanvas
          (loadedState\<lparr>paperFormat := custom,
             customDimensions := \<lparr>width = Fin 15, height = Fin 10\<rparr>\<rparr>))))
     = [Some \<lparr>width = Fin (15 / 2), height = Fin 5\<rparr>,
        Some \<lparr>width = Fin (15 / 2), height = Fin 5\<rparr>,
        Some \<lparr>width = Fin (15 / 2), height = Fin 5\<rparr>,
        Some \<lparr>width = Fin (15 / 2), height = Fin 5\<rparr>]"
proof -
  have h1: "sourceImage (loadedState\<lparr>paperFormat := custom,
       customDimensions := \<lparr>width = Fin 15, height = Fin 10\<rparr>\<rparr>) = Some sampleImage"
    by (simp add: loadedState_def imgOnload_def)
  have h2: "1 \<le> img_width sampleImage" and h3: "1 \<le> img_height sampleImage"
    by (simp_all add: sampleImage_def)
  have h4: "canvasContext sampleCanvas"
    by (simp add: sampleCanvas_def)
  have h5: "sectionContext sampleCanvas (img_width sampleImage div 2) (img_height sampleImage div 2)"
    by (simp add: sampleCanvas_def)
  have out: "getCurrentDimensions (loadedState\<lparr>paperFormat := custom,
       customDimensions := \<lparr>width = Fin 15, height = Fin 10\<rparr>\<rparr>)
     = \<lparr>width = Fin 15, height = Fin 10\<rparr>"
    by (simp add: getCurrentDimensions_def Let_def loadedState_def imgOnload_def
        handleFileUpload_def validFileTypes_def initialState_def)
  show ?thesis
    using h1 h2 h3 h4 h5 processImage_physical_dimensions [OF h1 h2 h3 h4 h5]
    by (simp add: out replicate_4)
qed

text \<open>
  Claim C5, as stated, fails twice. With no source image, \<open>processImage\<close> returns without
  reporting any error: the message stays empty. With an image loaded and the section
  canvases without a context, \<open>processImage\<close> reports no error either and replaces the
  stored (empty) list by a list of four null entries.
\<close>

theorem processImage_all_or_nothing_counterexample:
  "sourceImage initialState = None
   \<and> processImage sampleCanvas initialState = (initialState, None)
   \<and> error (fst (processImage sampleCanvas initialState)) = None
   \<and> splitSections loadedState = []
   \<and> splitSections (fst (processImage noSectionCanvas loadedState)) = [None, None, None, None]
   \<and> error (fst (processImage noSectionCanvas loadedState)) = None"
proof -
  have src: "sourceImage loadedState = Some sampleImage"
    by (simp add: loadedState_def imgOnload_def)
  have sz: "1 \<le> img_width sampleImage" "1 \<le> img_height sampleImage"
    by (simp_all add: sampleImage_def)
  have ctx: "canvasContext noSectionCanvas"
    by (simp add: noSectionCanvas_def sampleCanvas_def)
  have none: "createSection noSectionCanvas img out r = None" for img out r
    by (simp add: createSection_def noSectionCanvas_def Let_def)
  have a: "sourceImage initialState = None"
    by (simp add: initialState_def)
  have b: "processImage sampleCanvas initialState = (initialState, None)"
    by (simp add: processImage_def a)
  have c: "error (fst (processImage sampleCanvas initialState)) = None"
    unfolding b by (simp add: initialState_def)
  have d: "splitSections loadedState = []"
    by (simp add: loadedState_def imgOnload_def)
  have e: "splitSections (fst (processImage noSectionCanvas loadedState)) = [None, None, None, None]"
    by (simp add: processImage_split [OF src sz ctx] sectionRegions_list none)
  have "error loadedState = None"
    by (simp add: loadedState_def imgOnload_def handleFileUpload_def validFileTypes_def)
  then have f: "error (fst (processImage noSectionCanvas loadedState)) = None"
    by (simp add: processImage_split [OF src sz ctx])
  show ?thesis
    by (intro conjI a b c d e f)
qed

text \<open>
  Claim C5, amended. If no source image is loaded when the split is invoked, the
  operation returns silently: nothing is thrown and the whole state, the stored section
  list and the error message included, is unchanged. If an image is loaded and the
  context of the main canvas is unavailable, the operation sets the message
  \<open>Canvas not supported in your browser.\<close>, clears the processing flag and leaves the
  stored section list unchanged.
\<close>

theorem processImage_no_source_or_canvas:
  "(sourceImage s = None \<longrightarrow> processImage env s = (s, None))
   \<and> (sourceImage s \<noteq> None \<and> \<not> canvasContext env \<longrightarrow>
        processImage env s
          = (s\<lparr>error := Some ''Canvas not supported in your browser.'', isProcessing := False\<rparr>,
             None)
        \<and> splitSections (fst (processImage env s)) = splitSections s)"
  by (auto simp: processImage_def Let_def)

text \<open>
  Claim C5 on the initial state (no image) and on a loaded state whose earlier sections
  are kept when the canvas has no context.
\<close>

theorem processImage_no_source_or_canvas_witness:
  "sourceImage initialState = None
   \<and> processImage sampleCanvas initialState = (initialState, None)
   \<and> sourceImage (loadedState\<lparr>splitSections := [Some sampleSection]\<rparr>) \<noteq> None
   \<and> \<not> canvasContext noCanvas
   \<and> splitSections (fst (processImage noCanvas (loadedState\<lparr>splitSections := [Some sampleSection]\<rparr>)))
     = [Some sampleSection]
   \<and> error (fst (processImage noCanvas (loadedState\<lparr>splitSections := [Some sampleSection]\<rparr>)))
     = Some ''Canvas not supported in your browser.''"
proof -
  have h1: "sourceImage initialState = None"
    by (simp add: initialState_def)
  have h2: "sourceImage (loadedState\<lparr>splitSections := [Some sampleSection]\<rparr>) \<noteq> None"
    by (simp add: loadedState_def imgOnload_def)
  have h3: "\<not> canvasContext noCanvas"
    by (simp add: noCanvas_def)
  note A = processImage_no_source_or_canvas [of initialState sampleCanvas]
  note B = processImage_no_source_or_canvas
    [of "loadedState\<lparr>splitSections := [Some sampleSection]\<rparr>" noCanvas]
  have a: "processImage sampleCanvas initialState = (initialState, None)"
    using A h1 by simp
  have b: "processImage noCanvas (loadedState\<lparr>splitSections := [Some sampleSection]\<rparr>)
     = (loadedState\<lparr>splitSections := [Some sampleSection],
          error := Some ''Canvas not supported in your browser.'', isProcessing := False\<rparr>, None)"
    using B h2 h3 by simp
  have c: "splitSections (fst (processImage noCanvas (loadedState\<lparr>splitSections := [Some sampleSection]\<rparr>)))
     = [Some sampleSection]"
    unfolding b by simp
  have d: "error (fst (processImage noCanvas (loadedState\<lparr>splitSections := [Some sampleSection]\<rparr>)))
     = Some ''Canvas not supported in your browser.''"
    unfolding b by simp
  show ?thesis
    by (intro conjI h1 a h2 h3 c d)
qed

end
